theory Spec2Isabelle
  imports Complex_Main
begin

section \<open>Numeric cells: binary64 values as pandas holds them\<close>

text \<open>
  A numeric column of the table read by \<^verbatim>\<open>pd.read_csv\<close> has dtype float64. A cell is
  a finite binary64 number (kept as the rational it denotes), an infinity, or NaN (which
  is also the marker of a missing value). Every arithmetic result is rounded to the nearest
  binary64 number, ties to even. The sign of zero is not kept: a zero divisor counts as
  \<open>+0\<close>. Columns that pandas would type as int64 are read as float64 here, so the
  wrap-around of int64 products is outside the model.
\<close>

datatype float64 = Fin rat | PInf | NInf | NaN

function bitlen :: "int \<Rightarrow> int" where
  \<comment> \<open>the number of binary digits of a positive integer\<close>
  "bitlen n = (if n \<le> 0 then 0 else 1 + bitlen (n div 2))"
  by pat_completeness auto
termination
  by (relation "measure nat") auto

declare bitlen.simps [simp del]

definition flog2 :: "rat \<Rightarrow> int" where
  \<comment> \<open>for \<open>0 < a\<close>: the exponent \<open>e\<close> with \<open>2^e \<le> a < 2^(e+1)\<close>\<close>
  "flog2 a = (if 1 \<le> a then bitlen \<lfloor>a\<rfloor> - 1 else - bitlen (\<lceil>1 / a\<rceil> - 1))"

definition pow2 :: "int \<Rightarrow> rat" where
  "pow2 e = (if 0 \<le> e then 2 ^ nat e else 1 / 2 ^ nat (- e))"

definition round_half_even :: "rat \<Rightarrow> int" where
  "round_half_even x =
     (let f = \<lfloor>x\<rfloor>; d = x - of_int f
      in if d < 1 / 2 then f else if 1 / 2 < d then f + 1
         else if even f then f else f + 1)"

definition rnd :: "rat \<Rightarrow> float64" where
  \<comment> \<open>round to nearest binary64, ties to even: 53 significant bits, least exponent
      \<open>-1022\<close> (below it the spacing stays \<open>2^-1074\<close>), overflow from \<open>2^1024\<close> on\<close>
  "rnd q =
     (if q = 0 then Fin 0
      else let a = \<bar>q\<bar>;
               e = max (flog2 a) (- 1022);
               u = pow2 (e - 52);
               n = round_half_even (a / u)
           in if 1024 \<le> e \<or> (e = 1023 \<and> 2 ^ 53 \<le> n) then (if 0 < q then PInf else NInf)
              else Fin (if 0 < q then of_int n * u else - (of_int n * u)))"

fun isnan :: "float64 \<Rightarrow> bool" where
  "isnan NaN = True"
| "isnan _ = False"


fun fneg :: "float64 \<Rightarrow> float64" where
  "fneg (Fin a) = Fin (- a)"
| "fneg PInf = NInf"
| "fneg NInf = PInf"
| "fneg NaN = NaN"

fun fadd :: "float64 \<Rightarrow> float64 \<Rightarrow> float64" where
  "fadd NaN _ = NaN"
| "fadd _ NaN = NaN"
| "fadd (Fin a) (Fin b) = rnd (a + b)"
| "fadd PInf NInf = NaN"
| "fadd NInf PInf = NaN"
| "fadd PInf _ = PInf"
| "fadd NInf _ = NInf"
| "fadd (Fin _) y = y"

definition fsub :: "float64 \<Rightarrow> float64 \<Rightarrow> float64" where
  "fsub x y = fadd x (fneg y)"

fun fmul :: "float64 \<Rightarrow> float64 \<Rightarrow> float64" where
  "fmul NaN _ = NaN"
| "fmul _ NaN = NaN"
| "fmul (Fin a) (Fin b) = rnd (a * b)"
| "fmul (Fin a) y = (if a = 0 then NaN else if 0 < a then y else fneg y)"
| "fmul x (Fin b) = (if b = 0 then NaN else if 0 < b then x else fneg x)"
| "fmul PInf y = y"
| "fmul NInf y = fneg y"

fun fdiv :: "float64 \<Rightarrow> float64 \<Rightarrow> float64" where
  "fdiv NaN _ = NaN"
| "fdiv _ NaN = NaN"
| "fdiv (Fin a) (Fin b) =
     (if b = 0 then (if a = 0 then NaN else if 0 < a then PInf else NInf)
      else rnd (a / b))"
| "fdiv (Fin _) _ = Fin 0"
| "fdiv x (Fin b) = (if 0 \<le> b then x else fneg x)"
| "fdiv _ _ = NaN"

text \<open>Comparisons: every comparison with NaN is false.\<close>

fun fle :: "float64 \<Rightarrow> float64 \<Rightarrow> bool" where
  "fle NaN _ = False"
| "fle _ NaN = False"
| "fle NInf _ = True"
| "fle _ PInf = True"
| "fle (Fin a) (Fin b) = (a \<le> b)"
| "fle _ _ = False"

definition fge :: "float64 \<Rightarrow> float64 \<Rightarrow> bool" where
  "fge x y = fle y x"

fun feq :: "float64 \<Rightarrow> float64 \<Rightarrow> bool" where
  "feq NaN _ = False"
| "feq _ NaN = False"
| "feq x y = (x = y)"

definition fgt :: "float64 \<Rightarrow> float64 \<Rightarrow> bool" where
  "fgt x y = (fle y x \<and> \<not> feq x y)"

section \<open>The table as loaded\<close>

text \<open>
  A cell of the table as read: a number (NaN when the field is empty), a text, or, after
  \<^verbatim>\<open>pd.to_datetime\<close>, a timestamp or the missing timestamp NaT. The table is kept the
  way pandas keeps it, column by column, each column under its name; all columns have the
  same length, and \<^verbatim>\<open>read_csv\<close> delivers pairwise different names.
\<close>

datatype cell = Num float64 | Txt string | Stamp int | NaT

type_synonym frame = "(string \<times> cell list) list"

datatype error = KeyError string | ValueError string | TypeError string

text \<open>
  \<^verbatim>\<open>col.strip().lower()\<close> on the bytes of an ASCII name: \<open>strip\<close> removes leading and
  trailing white space (codes 9 to 13, 28 to 31 and 32), \<open>lower\<close> maps \<open>A..Z\<close> to
  \<open>a..z\<close>. Bytes beyond ASCII are left as they are.
\<close>

definition is_space :: "char \<Rightarrow> bool" where
  "is_space c = (let n = (of_char c :: nat) in (9 \<le> n \<and> n \<le> 13) \<or> (28 \<le> n \<and> n \<le> 32))"

definition strip :: "string \<Rightarrow> string" where
  "strip s = rev (dropWhile is_space (rev (dropWhile is_space s)))"

definition lower :: "string \<Rightarrow> string" where
  "lower s = map (\<lambda>c. let n = (of_char c :: nat) in
                        if 65 \<le> n \<and> n \<le> 90 then char_of (n + 32) else c) s"

text \<open>
  Lines 42 to 46. The test for the date column reads the names as they are in the file;
  the names are normalized afterwards. \<open>to_datetime\<close> stands for
  \<^verbatim>\<open>pd.to_datetime(_, errors="coerce")\<close> on one cell, a function of the library.
\<close>

definition prepare :: "(cell \<Rightarrow> cell) \<Rightarrow> frame \<Rightarrow> frame" where
  "prepare to_datetime df =
     (let df1 = (if ''order_date'' \<in> set (map fst df)
                 then map (\<lambda>(n, cs). if n = ''order_date'' then (n, map to_datetime cs) else (n, cs)) df
                 else df)
      in map (\<lambda>(n, cs). (lower (strip n), cs)) df1)"

text \<open>
  \<^verbatim>\<open>df[name]\<close>: KeyError when no column has the name. When two columns share it (possible
  after the normalization) pandas hands back a table instead of a column and the statement
  using it fails; that failure is recorded as a ValueError.
\<close>

definition column :: "string \<Rightarrow> frame \<Rightarrow> error + cell list" where
  "column name df =
     (case filter (\<lambda>c. fst c = name) df of
        [] \<Rightarrow> Inl (KeyError name)
      | [c] \<Rightarrow> Inr (snd c)
      | _ \<Rightarrow> Inl (ValueError name))"

fun as_floats :: "string \<Rightarrow> cell list \<Rightarrow> error + float64 list" where
  "as_floats name [] = Inr []"
| "as_floats name (Num x # cs) =
     (case as_floats name cs of Inl e \<Rightarrow> Inl e | Inr xs \<Rightarrow> Inr (x # xs))"
| "as_floats name (_ # cs) = Inl (TypeError name)"

definition numeric_column :: "string \<Rightarrow> frame \<Rightarrow> error + float64 list" where
  \<comment> \<open>a column used in arithmetic: a cell that is not a number makes the arithmetic fail\<close>
  "numeric_column name df =
     (case column name df of Inl e \<Rightarrow> Inl e | Inr cs \<Rightarrow> as_floats name cs)"

text \<open>
  One Transaction Record, restricted to the columns the program reads, and the same
  record with the four derived columns of the feature engineering step.
\<close>

record txn =
  price :: float64
  quantity :: float64
  discount :: float64
  category :: cell
  region :: cell

record row = txn +
  revenue :: float64
  discount_value :: float64
  profit :: float64
  profit_margin :: float64

fun make_rows ::
  "float64 list \<Rightarrow> float64 list \<Rightarrow> float64 list \<Rightarrow> cell list \<Rightarrow> cell list \<Rightarrow> txn list" where
  "make_rows (p # ps) (q # qs) (d # ds) (c # cs) (g # gs) =
     \<lparr>price = p, quantity = q, discount = d, category = c, region = g\<rparr> # make_rows ps qs ds cs gs"
| "make_rows _ _ _ _ _ = []"

text \<open>
  The columns the program looks up, in the order of its lookups: \<open>price\<close> and
  \<open>quantity\<close> (line 49), \<open>discount\<close> (line 50), \<open>category\<close> (line 61), \<open>region\<close>
  (line 67). The first lookup that fails ends the run with its exception.
\<close>

definition records :: "frame \<Rightarrow> error + txn list" where
  "records df =
     (case numeric_column ''price'' df of Inl e \<Rightarrow> Inl e | Inr ps \<Rightarrow>
      case numeric_column ''quantity'' df of Inl e \<Rightarrow> Inl e | Inr qs \<Rightarrow>
      case numeric_column ''discount'' df of Inl e \<Rightarrow> Inl e | Inr ds \<Rightarrow>
      case column ''category'' df of Inl e \<Rightarrow> Inl e | Inr cs \<Rightarrow>
      case column ''region'' df of Inl e \<Rightarrow> Inl e | Inr gs \<Rightarrow>
        Inr (make_rows ps qs ds cs gs))"

section \<open>Feature engineering\<close>

text \<open>
  Lines 49 to 52. Each assignment is elementwise over the whole column and reads the
  columns assigned before it; on one record that is a chain of four bindings.
\<close>

definition derive_row :: "txn \<Rightarrow> row" where
  "derive_row t =
     (let rev = fmul (price t) (quantity t);
          dv = fmul rev (discount t);
          pr = fsub rev dv;
          pm = fdiv pr rev
      in txn.extend t (row.fields rev dv pr pm))"

definition derive :: "txn list \<Rightarrow> row list" where
  "derive ts = map derive_row ts"

section \<open>Series reductions\<close>

text \<open>
  \<^verbatim>\<open>Series.min\<close>, \<^verbatim>\<open>max\<close>, \<^verbatim>\<open>sum\<close> and \<^verbatim>\<open>mean\<close> skip NaN. Over no value the
  sum is 0 and the others are NaN. The sum adds from left to right, rounding each partial
  sum; the library's order of additions can differ, which shows in the last bits only.
\<close>

definition dropna :: "float64 list \<Rightarrow> float64 list" where
  "dropna xs = filter (\<lambda>x. \<not> isnan x) xs"

definition series_min :: "float64 list \<Rightarrow> float64" where
  "series_min xs =
     (case dropna xs of [] \<Rightarrow> NaN
      | y # ys \<Rightarrow> foldl (\<lambda>m x. if fle x m then x else m) y ys)"

definition series_max :: "float64 list \<Rightarrow> float64" where
  "series_max xs =
     (case dropna xs of [] \<Rightarrow> NaN
      | y # ys \<Rightarrow> foldl (\<lambda>m x. if fle m x then x else m) y ys)"

definition series_sum :: "float64 list \<Rightarrow> float64" where
  "series_sum xs = foldl fadd (Fin 0) (dropna xs)"

definition series_mean :: "float64 list \<Rightarrow> float64" where
  "series_mean xs =
     (let ys = dropna xs
      in if ys = [] then NaN else fdiv (series_sum ys) (rnd (of_nat (length ys))))"

fun unique :: "'a list \<Rightarrow> 'a list" where
  \<comment> \<open>\<^verbatim>\<open>Series.unique\<close>: the distinct values in the order of their first occurrence\<close>
  "unique [] = []"
| "unique (x # xs) = x # filter (\<lambda>y. y \<noteq> x) (unique xs)"

section \<open>Filter state and Filtered View\<close>

text \<open>
  What the three sidebar widgets return. Untouched, they return their defaults: all
  distinct categories, all distinct regions, and the pair of the least and the greatest
  discount of the whole table (lines 59 to 76).
\<close>

record selection =
  categories :: "cell list"
  regions :: "cell list"
  discount_range :: "float64 \<times> float64"

definition default_selection :: "row list \<Rightarrow> selection" where
  "default_selection df =
     \<lparr>categories = unique (map category df),
      regions = unique (map region df),
      discount_range = (series_min (map discount df), series_max (map discount df))\<rparr>"

text \<open>
  Lines 78 to 83: four boolean columns, joined by \<^verbatim>\<open>&\<close> from left to right, select the
  rows. \<^verbatim>\<open>isin\<close> finds a missing value in a list that holds the missing value.
\<close>

definition mask_and :: "bool list \<Rightarrow> bool list \<Rightarrow> bool list" where
  "mask_and xs ys = map (\<lambda>(x, y). x \<and> y) (zip xs ys)"

definition select_rows :: "'a list \<Rightarrow> bool list \<Rightarrow> 'a list" where
  "select_rows df keep = map fst (filter snd (zip df keep))"

definition filtered_df :: "selection \<Rightarrow> row list \<Rightarrow> row list" where
  "filtered_df s df =
     (let m1 = map (\<lambda>r. category r \<in> set (categories s)) df;
          m2 = map (\<lambda>r. region r \<in> set (regions s)) df;
          m3 = map (\<lambda>r. fge (discount r) (fst (discount_range s))) df;
          m4 = map (\<lambda>r. fle (discount r) (snd (discount_range s))) df
      in select_rows df (mask_and (mask_and (mask_and m1 m2) m3) m4))"

section \<open>What the page shows\<close>

datatype notice = DatasetNotFound | CannotCompare | SeasonalTrends | BestCategories

text \<open>
  The elements put on the page, each with the data handed to it. Headings and captions
  are left out. Drawing is the work of the plotting libraries; a chart is recorded by the
  rows or the table it is given.
\<close>

datatype element =
    Title
  | Intro
  | ErrorBox notice
  | Metric string float64
  | Dataframe "row list"
  | Histogram "row list"
  | Scatter string string "row list"
  | BoxPlot "row list"
  | BarChart "((cell \<times> bool) \<times> float64) list"
  | Heatmap "float64 list list"
  | Success float64
  | Warning float64
  | Info notice
  | Balloons

text \<open>Lines 90 to 94: the four headline metrics.\<close>

definition metrics :: "row list \<Rightarrow> element list" where
  "metrics view =
     [Metric ''Average Discount'' (series_mean (map discount view)),
      Metric ''Total Revenue'' (series_sum (map revenue view)),
      Metric ''Total Profit'' (series_sum (map profit view)),
      Metric ''Avg Profit Margin'' (series_mean (map profit_margin view))]"

text \<open>
  Lines 127 to 131: \<^verbatim>\<open>groupby\<close> on the pair (category, \<open>discount > 0\<close>), then the mean
  of \<open>profit\<close> in every group. A row whose category is missing belongs to no group. The
  groups are listed in the order of their first row (pandas sorts them by key).
\<close>

fun isna :: "cell \<Rightarrow> bool" where
  "isna (Num x) = isnan x"
| "isna NaT = True"
| "isna _ = False"

fun add_to_group :: "'k \<Rightarrow> 'v \<Rightarrow> ('k \<times> 'v list) list \<Rightarrow> ('k \<times> 'v list) list" where
  "add_to_group k v [] = [(k, [v])]"
| "add_to_group k v ((k', vs) # gs) =
     (if k' = k then (k', vs @ [v]) # gs else (k', vs) # add_to_group k v gs)"

definition group_key :: "row \<Rightarrow> cell \<times> bool" where
  "group_key r = (category r, fgt (discount r) (Fin 0))"

definition groupby :: "row list \<Rightarrow> ((cell \<times> bool) \<times> float64 list) list" where
  "groupby view =
     foldl (\<lambda>gs r. if isna (category r) then gs else add_to_group (group_key r) (profit r) gs)
       [] view"

definition profit_cat :: "row list \<Rightarrow> ((cell \<times> bool) \<times> float64) list" where
  "profit_cat view = map (\<lambda>(k, vs). (k, series_mean vs)) (groupby view)"

text \<open>
  Lines 102 to 144, the four tabs. The heat map is drawn from the correlation of four
  columns; the table of those columns is what is recorded.
\<close>

definition tabs :: "row list \<Rightarrow> element list" where
  "tabs view =
     [Dataframe (take 10 view),
      Histogram view,
      Scatter ''discount'' ''revenue'' view,
      Scatter ''discount'' ''profit'' view,
      BoxPlot view,
      BarChart (profit_cat view),
      Heatmap (map (\<lambda>r. [discount r, revenue r, profit r, quantity r]) view)]"

text \<open>Lines 151 to 165, the Insight Narrator.\<close>

definition discounted :: "row list \<Rightarrow> row list" where
  "discounted view = filter (\<lambda>r. fgt (discount r) (Fin 0)) view"

definition non_discounted :: "row list \<Rightarrow> row list" where
  "non_discounted view = filter (\<lambda>r. feq (discount r) (Fin 0)) view"

definition sales_boost :: "row list \<Rightarrow> float64" where
  "sales_boost view =
     fmul (fdiv (fsub (series_mean (map quantity (discounted view)))
                      (series_mean (map quantity (non_discounted view))))
                (series_mean (map quantity (non_discounted view))))
          (Fin 100)"

definition profit_diff :: "row list \<Rightarrow> float64" where
  "profit_diff view =
     fmul (fsub (series_mean (map profit_margin (discounted view)))
                (series_mean (map profit_margin (non_discounted view))))
          (Fin 100)"

definition insights :: "row list \<Rightarrow> element list" where
  "insights view =
     (if non_discounted view \<noteq> []
      then [Success (sales_boost view), Warning (profit_diff view)]
      else [Info CannotCompare])
     @ [Info SeasonalTrends, Info BestCategories, Balloons]"

section \<open>The run of the script\<close>

text \<open>
  One run of the script: \<open>file\<close> is the table in the file at the fixed path, or \<open>None\<close>
  when no file is there; \<open>widgets\<close> is what the user has set in the sidebar, or \<open>None\<close>
  when the widgets are untouched. \<^verbatim>\<open>st.stop()\<close> ends the run without an exception.
\<close>

datatype status = Completed | Stopped | Raised error

record run =
  shown :: "element list"
  outcome :: status

definition dashboard :: "(cell \<Rightarrow> cell) \<Rightarrow> frame option \<Rightarrow> selection option \<Rightarrow> run" where
  "dashboard to_datetime file widgets =
     (case file of
        None \<Rightarrow> \<lparr>shown = [Title, Intro, ErrorBox DatasetNotFound], outcome = Stopped\<rparr>
      | Some csv \<Rightarrow>
          (case records (prepare to_datetime csv) of
             Inl e \<Rightarrow> \<lparr>shown = [Title, Intro], outcome = Raised e\<rparr>
           | Inr ts \<Rightarrow>
               (let df = derive ts;
                    s = (case widgets of None \<Rightarrow> default_selection df | Some w \<Rightarrow> w);
                    view = filtered_df s df
                in \<lparr>shown = [Title, Intro] @ metrics view @ tabs view @ insights view,
                    outcome = Completed\<rparr>)))"

section \<open>The two readings of a bar\<close>


section \<open>Sample tables\<close>

text \<open>
  The binary64 numbers nearest to 0.1 and 0.2, the two records of the example of the
  specification, and records with a zero price, a missing discount, a negative discount,
  a discount of one half, and a discount of 0.2 on a price of 3.
\<close>

definition tenth :: float64 where
  "tenth = Fin (3602879701896397 / 36028797018963968)"


definition txn_a :: txn where
  "txn_a = \<lparr>price = Fin 100, quantity = Fin 2, discount = tenth,
            category = Txt ''A'', region = Txt ''X''\<rparr>"



definition txn_missing :: txn where
  "txn_missing = \<lparr>price = Fin 10, quantity = Fin 1, discount = NaN,
                  category = Txt ''A'', region = Txt ''X''\<rparr>"






definition table_missing :: "row list" where
  "table_missing = derive [txn_missing, txn_a]"


section \<open>Derived columns\<close>




section \<open>The Filtered View\<close>

lemma mask_and_map: "mask_and (map P df) (map Q df) = map (\<lambda>r. P r \<and> Q r) df"
  by (induction df) (simp_all add: mask_and_def)

lemma select_rows_map: "select_rows df (map P df) = filter P df"
  by (induction df) (simp_all add: select_rows_def)

lemma filtered_df_filter:
  "filtered_df s df =
     filter (\<lambda>r. category r \<in> set (categories s) \<and> region r \<in> set (regions s) \<and>
                 fle (fst (discount_range s)) (discount r) \<and>
                 fle (discount r) (snd (discount_range s))) df"
  by (simp add: filtered_df_def Let_def mask_and_map select_rows_map fge_def conj_assoc)

text \<open>
  C2. For every filter state the Filtered View is exactly the rows of the table, in their
  order, whose category is among the selected categories, whose region is among the
  selected regions, and whose discount \<open>d\<close> satisfies \<open>lo \<le> d\<close> and \<open>d \<le> hi\<close>, both
  ends included.
\<close>

theorem filtered_view_exact:
  "filtered_df s df =
     filter (\<lambda>r. category r \<in> set (categories s) \<and> region r \<in> set (regions s) \<and>
                 fle (fst (discount_range s)) (discount r) \<and>
                 fle (discount r) (snd (discount_range s))) df"
  by (rule filtered_df_filter)




lemma fle_nan_right: "isnan y \<Longrightarrow> \<not> fle x y"
  by (cases x; cases y) simp_all










text \<open>
  C10. A row whose discount is missing (NaN) is in no Filtered View, whatever the
  discount range, the default range included.
\<close>

theorem missing_discount_excluded:
  "isnan (discount r) \<Longrightarrow> r \<notin> set (filtered_df s df)"
  by (simp add: filtered_df_filter fle_nan_right)

theorem missing_discount_excluded_witness:
  "isnan (discount (derive_row txn_missing)) \<and>
   derive_row txn_missing \<in> set table_missing \<and>
   derive_row txn_missing \<notin> set (filtered_df (default_selection table_missing) table_missing)"
proof -
  have h: "isnan (discount (derive_row txn_missing))"
    by code_simp
  have m: "derive_row txn_missing \<in> set table_missing"
    by (simp add: table_missing_def derive_def)
  show ?thesis
    using h m missing_discount_excluded [OF h] by simp
qed

section \<open>Derived margin\<close>




section \<open>Grouped bars\<close>













section \<open>Insight Narrator\<close>



section \<open>The run\<close>

text \<open>
  C7. When no file is at the fixed path, the run shows the error message after the title
  and the introduction and stops there: no metric, no chart, no insight, and no exception.
\<close>

theorem missing_file_stops:
  "dashboard to_datetime None widgets =
     \<lparr>shown = [Title, Intro, ErrorBox DatasetNotFound], outcome = Stopped\<rparr>"
  by (simp add: dashboard_def)



lemma normalized_names:
  "lower (strip ''Order_Date'') = ''order_date''"
  "lower (strip ''order_date'') = ''order_date''"
  by code_simp+

text \<open>
  C5. The names of the columns are normalized after the date column has been looked for.
  A column named \<open>Order_Date\<close> in the file is renamed to \<open>order_date\<close> with its cells
  as they were read; only a column named \<open>order_date\<close> in the file has its cells turned
  into timestamps.
\<close>

theorem date_column_case_sensitive:
  "prepare to_datetime [(''Order_Date'', [c])] = [(''order_date'', [c])] \<and>
   prepare to_datetime [(''order_date'', [c])] = [(''order_date'', [to_datetime c])]"
  by (simp add: prepare_def normalized_names)

end
